theory Spec2Isabelle
  imports Complex_Main
begin

section \<open>Data model of \<open>main.py\<close>\<close>

text \<open>
  The service of \<open>main.py\<close> wires three concerns together: the schema of the request,
  one call into the embedding model (\<open>model.encode\<close>) and one insert into the document
  store (\<open>texts_coll.insert_one\<close>). The model and the store are libraries outside the
  repository; they are parameters of the embedding, and what a theorem needs from them
  is a named contract among its hypotheses.
\<close>

subsection \<open>Exceptions and HTTP failures\<close>

text \<open>
  A Python exception is its class name and the text \<open>str(e)\<close> gives. The handler of
  \<open>add_text\<close> only ever reads the text. The exceptions modelled are those that derive
  from \<open>Exception\<close>, the ones \<open>except Exception\<close> catches.
\<close>

datatype exn = Exn (exn_class: string) (str_exn: string)

text \<open>
  What the caller of the endpoint can receive instead of a response: the
  \<open>HTTPException\<close> the handler raises, or the validation error the framework raises
  for a body that does not fit \<open>AddTextRequest\<close> (it lists the offending fields).
\<close>

datatype http_error =
    HTTPException (status_code: nat) (detail: string)
  | RequestValidationError "string list"

fun http_status :: "http_error \<Rightarrow> nat" where
  "http_status (HTTPException c d) = c"
| "http_status (RequestValidationError locs) = 422"

subsection \<open>Request, response and stored document\<close>

text \<open>\<open>class AddTextRequest(BaseModel)\<close>: two required \<open>str\<close> fields, no further constraint.\<close>

record AddTextRequest =
  title :: string
  content :: string

text \<open>\<open>class AddTextResponse(BaseModel)\<close>; its \<open>title\<close> field is \<open>resp_title\<close> here.\<close>

record AddTextResponse =
  inserted_id :: string
  resp_title :: string

text \<open>
  The dictionary \<open>doc\<close> built by \<open>add_text\<close>, with its four keys. The element type
  \<open>'f\<close> of the embedding stands for the floats: no theorem looks inside them.
\<close>

record 'f document =
  doc_title :: string
  doc_content :: string
  embedding :: "'f list"
  model :: string

definition MODEL_NAME :: string where
  "MODEL_NAME = ''all-MiniLM-L6-v2''"

subsection \<open>What \<open>model.encode\<close> returns\<close>

text \<open>
  \<open>_to_list\<close> tells its argument apart by \<open>hasattr(vector, "tolist")\<close>: an array
  (\<open>NdArray\<close>, it has \<open>tolist\<close>), a plain list (\<open>PyList\<close>, no \<open>tolist\<close>, iterable), and
  any other object, given by its type name (\<open>PyObject\<close>: no \<open>tolist\<close>, and \<open>list\<close>
  raises \<open>TypeError\<close> on it).
\<close>

datatype 'f encoded = NdArray "'f list" | PyList "'f list" | PyObject string

fun to_list :: "'f encoded \<Rightarrow> exn + 'f list" where
  "to_list (NdArray xs) = Inr xs"
| "to_list (PyList xs) = Inr xs"
| "to_list (PyObject ty) =
     Inl (Exn ''TypeError'' ([CHR 0x27] @ ty @ [CHR 0x27] @ '' object is not iterable''))"

fun dim :: "'f encoded \<Rightarrow> nat" where
  "dim (NdArray xs) = length xs"
| "dim (PyList xs) = length xs"
| "dim (PyObject ty) = 0"

subsection \<open>Collaborators and the world they act on\<close>

text \<open>
  \<open>encode\<close> is \<open>model.encode\<close>; \<open>insert_one\<close> is \<open>texts_coll.insert_one\<close>, which
  returns the generated identifier or raises, and in both cases leaves the store in
  some state; \<open>str_id\<close> is \<open>str\<close> on that identifier.
\<close>

record ('f, 'st, 'id) collaborators =
  encode :: "string \<Rightarrow> exn + 'f encoded"
  insert_one :: "'st \<Rightarrow> 'f document \<Rightarrow> (exn + 'id) \<times> 'st"
  str_id :: "'id \<Rightarrow> string"

text \<open>The calls made to the collaborators, in order, and the state of the store.\<close>

datatype 'f call = Encode string | InsertOne "'f document"

record ('f, 'st) world =
  calls :: "'f call list"
  store :: 'st

section \<open>The endpoint \<open>add_text\<close>\<close>

text \<open>The f-string of line 57: title, a blank line, content.\<close>

definition text_blob :: "AddTextRequest \<Rightarrow> string" where
  "text_blob payload = title payload @ ''\<newline>\<newline>'' @ content payload"

text \<open>The dictionary literal of lines 63 to 68.\<close>

definition doc :: "AddTextRequest \<Rightarrow> 'f list \<Rightarrow> 'f document" where
  "doc payload embedding_list =
     \<lparr>doc_title = title payload, doc_content = content payload,
      embedding = embedding_list, model = MODEL_NAME\<rparr>"

text \<open>
  The body of the \<open>try\<close> block: every raise of a collaborator or of \<open>_to_list\<close> ends
  it with \<open>Inl\<close>, in the world reached so far.
\<close>

definition add_text_try ::
  "('f, 'st, 'id) collaborators \<Rightarrow> AddTextRequest \<Rightarrow> ('f, 'st) world
     \<Rightarrow> (exn + AddTextResponse) \<times> ('f, 'st) world" where
  "add_text_try cl payload w =
     (let text = text_blob payload;
          w1 = w\<lparr>calls := calls w @ [Encode text]\<rparr>
      in case encode cl text of
           Inl e \<Rightarrow> (Inl e, w1)
         | Inr vector \<Rightarrow>
             (case to_list vector of
                Inl e \<Rightarrow> (Inl e, w1)
              | Inr embedding_list \<Rightarrow>
                  (let d = doc payload embedding_list;
                       w2 = w1\<lparr>calls := calls w1 @ [InsertOne d]\<rparr>
                   in case insert_one cl (store w2) d of
                        (Inl e, st) \<Rightarrow> (Inl e, w2\<lparr>store := st\<rparr>)
                      | (Inr res, st) \<Rightarrow>
                          (Inr \<lparr>inserted_id = str_id cl res, resp_title = title payload\<rparr>,
                           w2\<lparr>store := st\<rparr>))))"

text \<open>\<open>except Exception as e: raise HTTPException(status_code=500, detail=str(e))\<close>\<close>

definition add_text ::
  "('f, 'st, 'id) collaborators \<Rightarrow> AddTextRequest \<Rightarrow> ('f, 'st) world
     \<Rightarrow> (http_error + AddTextResponse) \<times> ('f, 'st) world" where
  "add_text cl payload w =
     (case add_text_try cl payload w of
        (Inl e, w') \<Rightarrow> (Inl (HTTPException 500 (str_exn e)), w')
      | (Inr r, w') \<Rightarrow> (Inr r, w'))"

text \<open>
  The server runs one request after the other; the responses go to the callers and the
  world is what the next request finds.
\<close>

fun serve ::
  "('f, 'st, 'id) collaborators \<Rightarrow> AddTextRequest list \<Rightarrow> ('f, 'st) world \<Rightarrow> ('f, 'st) world" where
  "serve cl [] w = w"
| "serve cl (payload # rest) w = serve cl rest (snd (add_text cl payload w))"

section \<open>The request boundary\<close>

text \<open>
  \<open>add_text\<close> is registered with \<open>@app.post("/add-text")\<close> and the parameter
  \<open>payload: AddTextRequest\<close>: the framework parses the JSON body, validates it against
  the two declared \<open>str\<close> fields and calls the function only with a payload that
  fits. A field is text when the body has it as a JSON string (no coercion of numbers
  to text); when a key occurs twice the last occurrence counts, as in a Python
  dictionary; keys that are not declared are ignored.
\<close>

datatype json =
    JNull | JBool bool | JNumber int | JString string
  | JArray "json list" | JObject "(string \<times> json) list"

fun str_field :: "(string \<times> json) list \<Rightarrow> string \<Rightarrow> string option" where
  "str_field kvs k =
     (case map_of (rev kvs) k of Some (JString s) \<Rightarrow> Some s | _ \<Rightarrow> None)"

fun validate :: "json \<Rightarrow> http_error + AddTextRequest" where
  "validate (JObject kvs) =
     (case (str_field kvs ''title'', str_field kvs ''content'') of
        (Some t, Some c) \<Rightarrow> Inr \<lparr>title = t, content = c\<rparr>
      | _ \<Rightarrow> Inl (RequestValidationError
                 (filter (\<lambda>k. str_field kvs k = None) [''title'', ''content''])))"
| "validate body = Inl (RequestValidationError [''body''])"

definition post_add_text ::
  "('f, 'st, 'id) collaborators \<Rightarrow> json \<Rightarrow> ('f, 'st) world
     \<Rightarrow> (http_error + AddTextResponse) \<times> ('f, 'st) world" where
  "post_add_text cl body w =
     (case validate body of
        Inl err \<Rightarrow> (Inl err, w)
      | Inr payload \<Rightarrow> add_text cl payload w)"

section \<open>Configuration at startup\<close>








section \<open>Contracts of the collaborators\<close>

text \<open>
  \<open>docs_of\<close> reads the documents of the collection out of a store state, each with its
  identifier, in insertion order. The contracts below are what the theorems assume of
  the libraries, each theorem naming the ones it needs.
\<close>

definition appends_on_success ::
  "('f, 'st, 'id) collaborators \<Rightarrow> ('st \<Rightarrow> ('id \<times> 'f document) list) \<Rightarrow> bool" where
  "appends_on_success cl docs_of \<longleftrightarrow>
     (\<forall>s d i s'. insert_one cl s d = (Inr i, s') \<longrightarrow> docs_of s' = docs_of s @ [(i, d)])"

definition fresh_ids ::
  "('f, 'st, 'id) collaborators \<Rightarrow> ('st \<Rightarrow> ('id \<times> 'f document) list) \<Rightarrow> bool" where
  "fresh_ids cl docs_of \<longleftrightarrow>
     (\<forall>s d i s'. insert_one cl s d = (Inr i, s') \<longrightarrow> i \<notin> fst ` set (docs_of s))"

definition clean_failure ::
  "('f, 'st, 'id) collaborators \<Rightarrow> ('st \<Rightarrow> ('id \<times> 'f document) list) \<Rightarrow> bool" where
  "clean_failure cl docs_of \<longleftrightarrow>
     (\<forall>s d e s'. insert_one cl s d = (Inl e, s') \<longrightarrow> docs_of s' = docs_of s)"

definition persists_only_offered ::
  "('f, 'st, 'id) collaborators \<Rightarrow> ('st \<Rightarrow> ('id \<times> 'f document) list) \<Rightarrow> bool" where
  "persists_only_offered cl docs_of \<longleftrightarrow>
     (\<forall>s d. snd ` set (docs_of (snd (insert_one cl s d))) \<subseteq> insert d (snd ` set (docs_of s)))"

definition encoder_dim :: "('f, 'st, 'id) collaborators \<Rightarrow> nat \<Rightarrow> bool" where
  "encoder_dim cl n \<longleftrightarrow> (\<forall>t v. encode cl t = Inr v \<longrightarrow> dim v = n)"

text \<open>
  The invariant of the data model on the documents of a collection: those of the
  configured model have 384 components, and documents of one model have embeddings of
  one length.
\<close>

definition dim_consistent :: "'f document list \<Rightarrow> bool" where
  "dim_consistent ds \<longleftrightarrow>
     (\<forall>d \<in> set ds. model d = MODEL_NAME \<longrightarrow> length (embedding d) = 384) \<and>
     (\<forall>d1 \<in> set ds. \<forall>d2 \<in> set ds.
        model d1 = model d2 \<longrightarrow> length (embedding d1) = length (embedding d2))"

section \<open>Collaborators to run the model on\<close>

text \<open>
  An encoder that returns an array of 384 components (each the length of the text),
  and a store in memory: a list of documents with natural numbers as identifiers, the
  next one above all those present.
\<close>

definition demo_encode :: "string \<Rightarrow> exn + real encoded" where
  "demo_encode t = Inr (NdArray (replicate 384 (real (length t))))"

fun next_id :: "(nat \<times> 'd) list \<Rightarrow> nat" where
  "next_id [] = 0"
| "next_id ((i, d) # s) = max (Suc i) (next_id s)"

definition mem_insert_one ::
  "(nat \<times> 'd) list \<Rightarrow> 'd \<Rightarrow> (exn + nat) \<times> (nat \<times> 'd) list" where
  "mem_insert_one s d = (Inr (next_id s), s @ [(next_id s, d)])"

fun str_nat :: "nat \<Rightarrow> string" where
  "str_nat n =
     (if n < 10 then [''0123456789'' ! n]
      else str_nat (n div 10) @ [''0123456789'' ! (n mod 10)])"

declare str_nat.simps [simp del]

definition demo :: "(real, (nat \<times> real document) list, nat) collaborators" where
  "demo = \<lparr>encode = demo_encode, insert_one = mem_insert_one, str_id = str_nat\<rparr>"

text \<open>The same with a store that cannot be reached: the insert raises and writes nothing.\<close>

definition demo_down :: "(real, (nat \<times> real document) list, nat) collaborators" where
  "demo_down = demo\<lparr>insert_one :=
     \<lambda>s d. (Inl (Exn ''ServerSelectionTimeoutError'' ''connection refused''), s)\<rparr>"

text \<open>
  The same with a store that writes the document and then raises, as when the write is
  applied and its acknowledgement times out.
\<close>

definition demo_late :: "(real, (nat \<times> real document) list, nat) collaborators" where
  "demo_late = demo\<lparr>insert_one :=
     \<lambda>s d. (Inl (Exn ''WriteConcernError'' ''waiting for replication timed out''),
            s @ [(next_id s, d)])\<rparr>"

text \<open>The same with an encoder that raises, and with one that returns no vector.\<close>

definition demo_no_model :: "(real, (nat \<times> real document) list, nat) collaborators" where
  "demo_no_model = demo\<lparr>encode := \<lambda>t. Inl (Exn ''RuntimeError'' ''out of memory'')\<rparr>"

definition demo_no_vector :: "(real, (nat \<times> real document) list, nat) collaborators" where
  "demo_no_vector = demo\<lparr>encode := \<lambda>t. Inr (PyObject ''NoneType'')\<rparr>"

text \<open>
  The same with an encoder that knows one text only, the title \<open>Hello\<close> framed with the
  content \<open>World\<close>, and raises on every other text.
\<close>

definition demo_picky :: "(real, (nat \<times> real document) list, nat) collaborators" where
  "demo_picky = demo\<lparr>encode := \<lambda>t.
     if t = ''Hello\<newline>\<newline>World'' then demo_encode t
     else Inl (Exn ''ValueError'' ''unexpected text'')\<rparr>"

definition empty_world :: "(real, (nat \<times> real document) list) world" where
  "empty_world = \<lparr>calls = [], store = []\<rparr>"

section \<open>What a body lacks\<close>

text \<open>
  The value a JSON body gives for a key (none when the body is not an object or has no
  such key), and whether such a value is text.
\<close>

fun get_key :: "json \<Rightarrow> string \<Rightarrow> json option" where
  "get_key (JObject kvs) k = map_of (rev kvs) k"
| "get_key body k = None"

fun is_text :: "json option \<Rightarrow> bool" where
  "is_text (Some (JString s)) = True"
| "is_text other = False"

section \<open>Reading the record of calls\<close>

text \<open>The texts handed to \<open>model.encode\<close> and the documents handed to \<open>insert_one\<close>.\<close>

fun encoded_texts :: "'f call list \<Rightarrow> string list" where
  "encoded_texts [] = []"
| "encoded_texts (Encode t # cs) = t # encoded_texts cs"
| "encoded_texts (InsertOne d # cs) = encoded_texts cs"

fun inserted_docs :: "'f call list \<Rightarrow> 'f document list" where
  "inserted_docs [] = []"
| "inserted_docs (Encode t # cs) = inserted_docs cs"
| "inserted_docs (InsertOne d # cs) = d # inserted_docs cs"

section \<open>Theorems\<close>

subsection \<open>The record of calls\<close>

lemma encoded_texts_append [simp]:
  "encoded_texts (xs @ ys) = encoded_texts xs @ encoded_texts ys"
  by (induction xs rule: encoded_texts.induct) simp_all

lemma inserted_docs_append [simp]:
  "inserted_docs (xs @ ys) = inserted_docs xs @ inserted_docs ys"
  by (induction xs rule: inserted_docs.induct) simp_all

lemma add_text_try_calls:
  "encoded_texts (calls (snd (add_text_try cl payload w))) =
     encoded_texts (calls w) @ [text_blob payload]"
  by (simp add: add_text_try_def Let_def split: sum.split prod.split)

lemma add_text_calls:
  "encoded_texts (calls (snd (add_text cl payload w))) =
     encoded_texts (calls w) @ [text_blob payload]"
  using add_text_try_calls [of cl payload w]
  by (cases "add_text_try cl payload w") (auto simp add: add_text_def split: sum.splits)

subsection \<open>A successful call\<close>

lemma add_text_success:
  assumes "add_text cl payload w = (Inr r, w')"
  shows "\<exists>v xs i st. encode cl (text_blob payload) = Inr v \<and> to_list v = Inr xs
      \<and> insert_one cl (store w) (doc payload xs) = (Inr i, st)
      \<and> r = \<lparr>inserted_id = str_id cl i, resp_title = title payload\<rparr>
      \<and> w' = \<lparr>calls = calls w @ [Encode (text_blob payload), InsertOne (doc payload xs)], store = st\<rparr>"
  using assms
  by (auto simp add: add_text_def add_text_try_def Let_def split: sum.splits prod.splits)

lemma add_text_run:
  assumes "encode cl (text_blob payload) = Inr v" and "to_list v = Inr xs"
    and "insert_one cl (store w) (doc payload xs) = (res, st)"
  shows "add_text cl payload w =
     ((case res of Inl e \<Rightarrow> Inl (HTTPException 500 (str_exn e))
        | Inr i \<Rightarrow> Inr \<lparr>inserted_id = str_id cl i, resp_title = title payload\<rparr>),
      \<lparr>calls = calls w @ [Encode (text_blob payload), InsertOne (doc payload xs)], store = st\<rparr>)"
  using assms
  by (simp add: add_text_def add_text_try_def Let_def split: sum.splits)

text \<open>
  C1. For every payload, when \<open>add_text\<close> succeeds and a successful insert of the
  store appends the document it is given, exactly one document is added to the
  collection: it has the fields title, content, embedding and model, its title and
  content are those of the payload, its embedding is the list form of what the encoder
  returned for the framed text, and its model is \<open>MODEL_NAME\<close>. It is the only
  document handed to the store, and the response carries the text of the identifier the
  store generated together with the title of the payload.
\<close>

theorem C1_success_persists_document:
  assumes "appends_on_success cl docs_of" and "add_text cl payload w = (Inr r, w')"
  shows "\<exists>i v xs.
      docs_of (store w') = docs_of (store w) @
         [(i, \<lparr>doc_title = title payload, doc_content = content payload,
               embedding = xs, model = MODEL_NAME\<rparr>)]
      \<and> encode cl (title payload @ ''\<newline>\<newline>'' @ content payload) = Inr v \<and> to_list v = Inr xs
      \<and> inserted_docs (calls w') = inserted_docs (calls w) @
           [\<lparr>doc_title = title payload, doc_content = content payload,
             embedding = xs, model = MODEL_NAME\<rparr>]
      \<and> r = \<lparr>inserted_id = str_id cl i, resp_title = title payload\<rparr>"
proof -
  from add_text_success [OF assms(2)] obtain v xs i st where
    enc: "encode cl (text_blob payload) = Inr v" and tl: "to_list v = Inr xs"
    and ins: "insert_one cl (store w) (doc payload xs) = (Inr i, st)"
    and r: "r = \<lparr>inserted_id = str_id cl i, resp_title = title payload\<rparr>"
    and w': "w' = \<lparr>calls = calls w @ [Encode (text_blob payload), InsertOne (doc payload xs)], store = st\<rparr>"
    by blast
  from assms(1) ins have "docs_of st = docs_of (store w) @ [(i, doc payload xs)]"
    by (simp add: appends_on_success_def)
  with enc tl r w' show ?thesis
    by (simp add: doc_def text_blob_def)
qed

lemma demo_appends: "appends_on_success demo (\<lambda>s. s)"
  by (auto simp add: appends_on_success_def demo_def mem_insert_one_def)

lemma demo_hello: "add_text demo \<lparr>title = ''Hello'', content = ''World''\<rparr> empty_world =
   (Inr \<lparr>inserted_id = ''0'', resp_title = ''Hello''\<rparr>,
    \<lparr>calls = [Encode ''Hello\<newline>\<newline>World'',
        InsertOne \<lparr>doc_title = ''Hello'', doc_content = ''World'', embedding = replicate 384 12, model = MODEL_NAME\<rparr>],
      store = [(0, \<lparr>doc_title = ''Hello'', doc_content = ''World'', embedding = replicate 384 12, model = MODEL_NAME\<rparr>)]\<rparr>)"
  by (simp add: add_text_def add_text_try_def demo_def demo_encode_def mem_insert_one_def empty_world_def text_blob_def doc_def Let_def str_nat.simps)

theorem C1_witness:
  "appends_on_success demo (\<lambda>s. s)
   \<and> add_text demo \<lparr>title = ''Hello'', content = ''World''\<rparr> empty_world =
       (Inr \<lparr>inserted_id = ''0'', resp_title = ''Hello''\<rparr>,
        \<lparr>calls = [Encode ''Hello\<newline>\<newline>World'',
            InsertOne \<lparr>doc_title = ''Hello'', doc_content = ''World'',
                       embedding = replicate 384 12, model = MODEL_NAME\<rparr>],
          store = [(0, \<lparr>doc_title = ''Hello'', doc_content = ''World'',
                        embedding = replicate 384 12, model = MODEL_NAME\<rparr>)]\<rparr>)
   \<and> (\<exists>i v xs.
        [(0, \<lparr>doc_title = ''Hello'', doc_content = ''World'',
              embedding = replicate 384 12, model = MODEL_NAME\<rparr>)] =
          [(i, \<lparr>doc_title = ''Hello'', doc_content = ''World'', embedding = xs, model = MODEL_NAME\<rparr>)]
        \<and> encode demo ''Hello\<newline>\<newline>World'' = Inr v \<and> to_list v = Inr xs
        \<and> ''0'' = str_id demo i)"
proof -
  have h1: "appends_on_success demo (\<lambda>s. s)" by (rule demo_appends)
  note h2 = demo_hello
  from C1_success_persists_document [OF h1 h2]
  have "\<exists>i v xs.
        [(0, \<lparr>doc_title = ''Hello'', doc_content = ''World'',
              embedding = replicate 384 12, model = MODEL_NAME\<rparr>)] =
          [(i, \<lparr>doc_title = ''Hello'', doc_content = ''World'', embedding = xs, model = MODEL_NAME\<rparr>)]
        \<and> encode demo ''Hello\<newline>\<newline>World'' = Inr v \<and> to_list v = Inr xs
        \<and> ''0'' = str_id demo i"
    by (simp add: empty_world_def)
  with h1 h2 show ?thesis by blast
qed

subsection \<open>The text that is embedded\<close>

lemma add_text_encoder_at_text:
  assumes "encode cl' (text_blob payload) = encode cl (text_blob payload)"
    and "insert_one cl' = insert_one cl" and "str_id cl' = str_id cl"
  shows "add_text cl' payload w = add_text cl payload w"
proof (cases "encode cl (text_blob payload)")
  case (Inl e)
  with assms(1) show ?thesis
    by (simp add: add_text_def add_text_try_def Let_def)
next
  case (Inr v)
  show ?thesis
  proof (cases "to_list v")
    case (Inl e)
    with Inr assms(1) show ?thesis
      by (simp add: add_text_def add_text_try_def Let_def)
  next
    case xs: (Inr xs)
    obtain res st where ins: "insert_one cl (store w) (doc payload xs) = (res, st)"
      by (cases "insert_one cl (store w) (doc payload xs)") blast
    then have ins': "insert_one cl' (store w) (doc payload xs) = (res, st)"
      by (simp add: assms(2))
    from Inr assms(1) have e': "encode cl' (text_blob payload) = Inr v"
      by simp
    show ?thesis
      by (simp only: add_text_run [OF Inr xs ins] add_text_run [OF e' xs ins'] assms(3))
  qed
qed

text \<open>
  C2. The text \<open>add_text\<close> passes to \<open>model.encode\<close> is the title, then two newline
  characters, then the content, whatever the payload, the collaborators and the world.
  The outcome depends on the encoder through its answer at that text alone: two
  encoders that agree there give the same response and the same world, however they
  differ on other texts. And the answer at that text is the one used: when the encoder
  raises there the call fails with the text of that exception, and when it returns a
  vector there the document handed to the store carries the list form of that vector.
  The call is recorded once with that text, which is never the plain concatenation of
  title and content.
\<close>

theorem C2_encode_gets_framed_text:
  "(encode cl' (title payload @ ''\<newline>\<newline>'' @ content payload)
        = encode cl (title payload @ ''\<newline>\<newline>'' @ content payload)
      \<and> insert_one cl' = insert_one cl \<and> str_id cl' = str_id cl
      \<longrightarrow> add_text cl' payload w = add_text cl payload w)
   \<and> (encode cl (title payload @ ''\<newline>\<newline>'' @ content payload) = Inl e \<longrightarrow>
        add_text cl payload w =
          (Inl (HTTPException 500 (str_exn e)),
           w\<lparr>calls := calls w @
               [Encode (title payload @ ''\<newline>\<newline>'' @ content payload)]\<rparr>))
   \<and> (encode cl (title payload @ ''\<newline>\<newline>'' @ content payload) = Inr v
        \<and> to_list v = Inr xs \<longrightarrow>
        fst (add_text cl payload w) =
          (case fst (insert_one cl (store w)
                 \<lparr>doc_title = title payload, doc_content = content payload,
                  embedding = xs, model = MODEL_NAME\<rparr>) of
             Inl e \<Rightarrow> Inl (HTTPException 500 (str_exn e))
           | Inr i \<Rightarrow> Inr \<lparr>inserted_id = str_id cl i, resp_title = title payload\<rparr>)
        \<and> store (snd (add_text cl payload w)) =
            snd (insert_one cl (store w)
                 \<lparr>doc_title = title payload, doc_content = content payload,
                  embedding = xs, model = MODEL_NAME\<rparr>))
   \<and> encoded_texts (calls (snd (add_text cl payload w))) =
       encoded_texts (calls w) @ [title payload @ ''\<newline>\<newline>'' @ content payload]
   \<and> title payload @ ''\<newline>\<newline>'' @ content payload \<noteq> title payload @ content payload"
proof (intro conjI impI)
  assume "encode cl' (title payload @ ''\<newline>\<newline>'' @ content payload)
        = encode cl (title payload @ ''\<newline>\<newline>'' @ content payload)
      \<and> insert_one cl' = insert_one cl \<and> str_id cl' = str_id cl"
  then show "add_text cl' payload w = add_text cl payload w"
    by (intro add_text_encoder_at_text) (simp_all add: text_blob_def)
next
  assume "encode cl (title payload @ ''\<newline>\<newline>'' @ content payload) = Inl e"
  then show "add_text cl payload w =
          (Inl (HTTPException 500 (str_exn e)),
           w\<lparr>calls := calls w @
               [Encode (title payload @ ''\<newline>\<newline>'' @ content payload)]\<rparr>)"
    by (simp add: add_text_def add_text_try_def Let_def text_blob_def)
next
  assume a: "encode cl (title payload @ ''\<newline>\<newline>'' @ content payload) = Inr v
        \<and> to_list v = Inr xs"
  let ?d = "\<lparr>doc_title = title payload, doc_content = content payload,
                  embedding = xs, model = MODEL_NAME\<rparr>"
  obtain res st where ins: "insert_one cl (store w) (doc payload xs) = (res, st)"
    by (cases "insert_one cl (store w) (doc payload xs)") blast
  have e: "encode cl (text_blob payload) = Inr v" and t: "to_list v = Inr xs"
    using a by (simp_all add: text_blob_def)
  have d: "doc payload xs = ?d"
    by (simp add: doc_def)
  note run = add_text_run [OF e t ins]
  show "fst (add_text cl payload w) =
          (case fst (insert_one cl (store w) ?d) of
             Inl e \<Rightarrow> Inl (HTTPException 500 (str_exn e))
           | Inr i \<Rightarrow> Inr \<lparr>inserted_id = str_id cl i, resp_title = title payload\<rparr>)"
    using run ins by (simp add: d)
  show "store (snd (add_text cl payload w)) = snd (insert_one cl (store w) ?d)"
    using run ins by (simp add: d)
next
  show "encoded_texts (calls (snd (add_text cl payload w))) =
       encoded_texts (calls w) @ [title payload @ ''\<newline>\<newline>'' @ content payload]"
    using add_text_calls [of cl payload w] by (simp add: text_blob_def)
next
  show "title payload @ ''\<newline>\<newline>'' @ content payload \<noteq> title payload @ content payload"
    by simp
qed

lemma demo_failed_encode:
  "add_text demo_no_model \<lparr>title = ''Hello'', content = ''World''\<rparr> empty_world =
     (Inl (HTTPException 500 ''out of memory''),
      \<lparr>calls = [Encode ''Hello\<newline>\<newline>World''], store = []\<rparr>)"
  by (simp add: add_text_def add_text_try_def demo_no_model_def demo_def empty_world_def
      text_blob_def Let_def)

theorem C2_witness:
  "encode demo_picky ''Hello\<newline>\<newline>World'' = encode demo ''Hello\<newline>\<newline>World''
   \<and> insert_one demo_picky = insert_one demo \<and> str_id demo_picky = str_id demo
   \<and> encode demo_picky ''HelloWorld'' = Inl (Exn ''ValueError'' ''unexpected text'')
   \<and> add_text demo_picky \<lparr>title = ''Hello'', content = ''World''\<rparr> empty_world
       = (Inr \<lparr>inserted_id = ''0'', resp_title = ''Hello''\<rparr>,
          \<lparr>calls = [Encode ''Hello\<newline>\<newline>World'',
              InsertOne \<lparr>doc_title = ''Hello'', doc_content = ''World'',
                         embedding = replicate 384 12, model = MODEL_NAME\<rparr>],
            store = [(0, \<lparr>doc_title = ''Hello'', doc_content = ''World'',
                          embedding = replicate 384 12, model = MODEL_NAME\<rparr>)]\<rparr>)
   \<and> encode demo_no_model ''Hello\<newline>\<newline>World'' = Inl (Exn ''RuntimeError'' ''out of memory'')
   \<and> add_text demo_no_model \<lparr>title = ''Hello'', content = ''World''\<rparr> empty_world
       = (Inl (HTTPException 500 ''out of memory''),
          \<lparr>calls = [Encode ''Hello\<newline>\<newline>World''], store = []\<rparr>)
   \<and> encode demo ''Hello\<newline>\<newline>World'' = Inr (NdArray (replicate 384 12))
   \<and> to_list (NdArray (replicate 384 12) :: real encoded) = Inr (replicate 384 12)
   \<and> fst (add_text demo \<lparr>title = ''Hello'', content = ''World''\<rparr> empty_world)
       = Inr \<lparr>inserted_id = ''0'', resp_title = ''Hello''\<rparr>
   \<and> store (snd (add_text demo \<lparr>title = ''Hello'', content = ''World''\<rparr> empty_world))
       = [(0, \<lparr>doc_title = ''Hello'', doc_content = ''World'',
                embedding = replicate 384 12, model = MODEL_NAME\<rparr>)]"
proof -
  let ?p = "\<lparr>title = ''Hello'', content = ''World''\<rparr>"
  have h1: "encode demo_picky ''Hello\<newline>\<newline>World'' = encode demo ''Hello\<newline>\<newline>World''"
    by (simp add: demo_picky_def demo_def)
  have h2: "insert_one demo_picky = insert_one demo" and h3: "str_id demo_picky = str_id demo"
    by (simp_all add: demo_picky_def)
  have h4: "encode demo_picky ''HelloWorld'' = Inl (Exn ''ValueError'' ''unexpected text'')"
    by (simp add: demo_picky_def)
  have h5: "encode demo_no_model ''Hello\<newline>\<newline>World'' = Inl (Exn ''RuntimeError'' ''out of memory'')"
    by (simp add: demo_no_model_def)
  have h6: "encode demo ''Hello\<newline>\<newline>World'' = Inr (NdArray (replicate 384 12))"
    by (simp add: demo_def demo_encode_def)
  have h7: "to_list (NdArray (replicate 384 12) :: real encoded) = Inr (replicate 384 12)"
    by simp
  have "add_text demo_picky ?p empty_world = add_text demo ?p empty_world"
    by (rule C2_encode_gets_framed_text [where cl' = demo_picky and cl = demo
          and payload = ?p and w = empty_world, THEN conjunct1, THEN mp])
      (simp add: h1 h2 h3)
  then have r1: "add_text demo_picky ?p empty_world
       = (Inr \<lparr>inserted_id = ''0'', resp_title = ''Hello''\<rparr>,
          \<lparr>calls = [Encode ''Hello\<newline>\<newline>World'',
              InsertOne \<lparr>doc_title = ''Hello'', doc_content = ''World'',
                         embedding = replicate 384 12, model = MODEL_NAME\<rparr>],
            store = [(0, \<lparr>doc_title = ''Hello'', doc_content = ''World'',
                          embedding = replicate 384 12, model = MODEL_NAME\<rparr>)]\<rparr>)"
    by (simp only: demo_hello)
  have "add_text demo_no_model ?p empty_world =
      (Inl (HTTPException 500 (str_exn (Exn ''RuntimeError'' ''out of memory''))),
       empty_world\<lparr>calls := calls empty_world @
          [Encode (title ?p @ ''\<newline>\<newline>'' @ content ?p)]\<rparr>)"
    by (rule C2_encode_gets_framed_text [where cl = demo_no_model and payload = ?p
          and w = empty_world, THEN conjunct2, THEN conjunct1, THEN mp])
      (simp add: h5)
  then have r2: "add_text demo_no_model ?p empty_world
       = (Inl (HTTPException 500 ''out of memory''),
          \<lparr>calls = [Encode ''Hello\<newline>\<newline>World''], store = []\<rparr>)"
    by (simp add: empty_world_def)
  have "fst (add_text demo ?p empty_world) =
          (case fst (insert_one demo (store empty_world)
                 \<lparr>doc_title = title ?p, doc_content = content ?p,
                  embedding = replicate 384 12, model = MODEL_NAME\<rparr>) of
             Inl e \<Rightarrow> Inl (HTTPException 500 (str_exn e))
           | Inr i \<Rightarrow> Inr \<lparr>inserted_id = str_id demo i, resp_title = title ?p\<rparr>)
        \<and> store (snd (add_text demo ?p empty_world)) =
            snd (insert_one demo (store empty_world)
                 \<lparr>doc_title = title ?p, doc_content = content ?p,
                  embedding = replicate 384 12, model = MODEL_NAME\<rparr>)"
    by (rule C2_encode_gets_framed_text [where cl = demo and payload = ?p
          and w = empty_world and v = "NdArray (replicate 384 12)",
          THEN conjunct2, THEN conjunct2, THEN conjunct1, THEN mp])
      (simp add: h6)
  then have r3: "fst (add_text demo ?p empty_world) = Inr \<lparr>inserted_id = ''0'', resp_title = ''Hello''\<rparr>"
    and r4: "store (snd (add_text demo ?p empty_world))
       = [(0, \<lparr>doc_title = ''Hello'', doc_content = ''World'',
                embedding = replicate 384 12, model = MODEL_NAME\<rparr>)]"
    by (simp_all add: demo_def mem_insert_one_def empty_world_def str_nat.simps)
  from h1 h2 h3 h4 r1 h5 r2 h6 h7 r3 r4 show ?thesis
    by (intro conjI)
qed

subsection \<open>The dimension of the embeddings\<close>

lemma demo_persists_only: "persists_only_offered demo (\<lambda>s. s)"
  by (auto simp add: persists_only_offered_def demo_def mem_insert_one_def)

lemma demo_dim: "encoder_dim demo 384"
  by (auto simp add: encoder_dim_def demo_def demo_encode_def)

lemma next_id_above: "(i, d) \<in> set s \<Longrightarrow> i < next_id s"
  by (induction s rule: next_id.induct) auto

lemma demo_fresh: "fresh_ids demo (\<lambda>s. s)"
  using next_id_above by (fastforce simp add: fresh_ids_def demo_def mem_insert_one_def)

lemma demo_twice:
  "serve demo [\<lparr>title = ''Hello'', content = ''World''\<rparr>, \<lparr>title = ''Hello'', content = ''World''\<rparr>] empty_world =
    \<lparr>calls = [Encode ''Hello\<newline>\<newline>World'',
        InsertOne \<lparr>doc_title = ''Hello'', doc_content = ''World'', embedding = replicate 384 12, model = MODEL_NAME\<rparr>,
        Encode ''Hello\<newline>\<newline>World'',
        InsertOne \<lparr>doc_title = ''Hello'', doc_content = ''World'', embedding = replicate 384 12, model = MODEL_NAME\<rparr>],
      store = [(0, \<lparr>doc_title = ''Hello'', doc_content = ''World'', embedding = replicate 384 12, model = MODEL_NAME\<rparr>),
               (1, \<lparr>doc_title = ''Hello'', doc_content = ''World'', embedding = replicate 384 12, model = MODEL_NAME\<rparr>)]\<rparr>"
  by (simp add: add_text_def add_text_try_def demo_def demo_encode_def mem_insert_one_def empty_world_def text_blob_def doc_def Let_def)

lemma to_list_length: "to_list v = Inr xs \<Longrightarrow> length xs = dim v"
  by (cases v) auto

lemma add_text_store_step:
  assumes enc: "encoder_dim cl 384" and only: "persists_only_offered cl docs_of"
    and d: "d \<in> snd ` set (docs_of (store (snd (add_text cl payload w))))"
  shows "d \<in> snd ` set (docs_of (store w)) \<or> (model d = MODEL_NAME \<and> length (embedding d) = 384)"
proof (cases "encode cl (text_blob payload)")
  case (Inl e)
  with d show ?thesis
    by (simp add: add_text_def add_text_try_def Let_def)
next
  case (Inr v)
  show ?thesis
  proof (cases "to_list v")
    case (Inl e)
    with Inr d show ?thesis
      by (simp add: add_text_def add_text_try_def Let_def)
  next
    case xs: (Inr xs)
    have len: "length xs = 384"
      using enc Inr to_list_length [OF xs] by (simp add: encoder_dim_def)
    have st: "store (snd (add_text cl payload w)) = snd (insert_one cl (store w) (doc payload xs))"
      using Inr xs
      by (simp add: add_text_def add_text_try_def Let_def split: sum.splits prod.splits)
    from only have "snd ` set (docs_of (snd (insert_one cl (store w) (doc payload xs))))
        \<subseteq> insert (doc payload xs) (snd ` set (docs_of (store w)))"
      unfolding persists_only_offered_def by blast
    with d st have "d = doc payload xs \<or> d \<in> snd ` set (docs_of (store w))"
      by auto
    moreover have "model (doc payload xs) = MODEL_NAME \<and> length (embedding (doc payload xs)) = 384"
      using len by (simp add: doc_def)
    ultimately show ?thesis
      by blast
  qed
qed

lemma serve_store:
  assumes enc: "encoder_dim cl 384" and only: "persists_only_offered cl docs_of"
  shows "d \<in> snd ` set (docs_of (store (serve cl ps w))) \<Longrightarrow>
     d \<in> snd ` set (docs_of (store w)) \<or> (model d = MODEL_NAME \<and> length (embedding d) = 384)"
proof (induction ps arbitrary: w)
  case Nil
  then show ?case by simp
next
  case (Cons p ps)
  from Cons.IH [of "snd (add_text cl p w)"] Cons.prems
  have "d \<in> snd ` set (docs_of (store (snd (add_text cl p w))))
      \<or> (model d = MODEL_NAME \<and> length (embedding d) = 384)"
    by simp
  then show ?case
    using add_text_store_step [OF enc only] by blast
qed

text \<open>
  C3. Let the encoder return only vectors of 384 components, and let the store persist
  no document other than the one an insert offers it. Then after any sequence of
  requests every document of the collection that was not there before has the model
  \<open>MODEL_NAME\<close> and an embedding that is a list of exactly 384 components; and if the
  documents present before had embeddings of one length per model (384 for
  \<open>MODEL_NAME\<close>), so have the documents present afterwards.
\<close>

theorem C3_embedding_dimension:
  assumes "encoder_dim cl 384" and "persists_only_offered cl docs_of"
  shows "(\<forall>d \<in> snd ` set (docs_of (store (serve cl ps w))).
            d \<in> snd ` set (docs_of (store w)) \<or>
            (model d = MODEL_NAME \<and> length (embedding d) = 384))
       \<and> (dim_consistent (map snd (docs_of (store w))) \<longrightarrow>
            dim_consistent (map snd (docs_of (store (serve cl ps w)))))"
proof
  show new: "\<forall>d \<in> snd ` set (docs_of (store (serve cl ps w))).
            d \<in> snd ` set (docs_of (store w)) \<or>
            (model d = MODEL_NAME \<and> length (embedding d) = 384)"
    using serve_store [OF assms] by blast
  show "dim_consistent (map snd (docs_of (store w))) \<longrightarrow>
            dim_consistent (map snd (docs_of (store (serve cl ps w))))"
  proof
    assume inv: "dim_consistent (map snd (docs_of (store w)))"
    show "dim_consistent (map snd (docs_of (store (serve cl ps w))))"
      unfolding dim_consistent_def
    proof (intro conjI ballI impI)
      fix d assume "d \<in> set (map snd (docs_of (store (serve cl ps w))))" "model d = MODEL_NAME"
      then have m: "d \<in> snd ` set (docs_of (store (serve cl ps w)))" by simp
      from new m have "d \<in> snd ` set (docs_of (store w)) \<or>
            (model d = MODEL_NAME \<and> length (embedding d) = 384)" by blast
      moreover from inv have "\<And>d. d \<in> snd ` set (docs_of (store w)) \<Longrightarrow> model d = MODEL_NAME
            \<Longrightarrow> length (embedding d) = 384"
        by (auto simp add: dim_consistent_def)
      ultimately show "length (embedding d) = 384"
        using \<open>model d = MODEL_NAME\<close> by blast
    next
      fix d1 d2
      assume "d1 \<in> set (map snd (docs_of (store (serve cl ps w))))"
        "d2 \<in> set (map snd (docs_of (store (serve cl ps w))))" "model d1 = model d2"
      then have m: "d1 \<in> snd ` set (docs_of (store (serve cl ps w)))"
        "d2 \<in> snd ` set (docs_of (store (serve cl ps w)))" "model d1 = model d2"
        by simp_all
      from new m(1) have c1: "d1 \<in> snd ` set (docs_of (store w)) \<or>
            (model d1 = MODEL_NAME \<and> length (embedding d1) = 384)" by blast
      from new m(2) have c2: "d2 \<in> snd ` set (docs_of (store w)) \<or>
            (model d2 = MODEL_NAME \<and> length (embedding d2) = 384)" by blast
      from inv have i1: "\<And>d. d \<in> snd ` set (docs_of (store w)) \<Longrightarrow> model d = MODEL_NAME
            \<Longrightarrow> length (embedding d) = 384"
        and i2: "\<And>a b. a \<in> snd ` set (docs_of (store w)) \<Longrightarrow> b \<in> snd ` set (docs_of (store w))
            \<Longrightarrow> model a = model b \<Longrightarrow> length (embedding a) = length (embedding b)"
        by (auto simp add: dim_consistent_def)
      from c1 c2 show "length (embedding d1) = length (embedding d2)"
      proof (elim disjE conjE)
        assume "d1 \<in> snd ` set (docs_of (store w))" "d2 \<in> snd ` set (docs_of (store w))"
        then show ?thesis using i2 m(3) by blast
      next
        assume a: "d1 \<in> snd ` set (docs_of (store w))" "model d2 = MODEL_NAME" "length (embedding d2) = 384"
        with m(3) i1 [of d1] show ?thesis by simp
      next
        assume a: "model d1 = MODEL_NAME" "length (embedding d1) = 384" "d2 \<in> snd ` set (docs_of (store w))"
        with m(3) i1 [of d2] show ?thesis by simp
      next
        assume "length (embedding d1) = 384" "length (embedding d2) = 384"
        then show ?thesis by simp
      qed
    qed
  qed
qed


theorem C3_witness:
  "encoder_dim demo 384 \<and> persists_only_offered demo (\<lambda>s. s)
   \<and> dim_consistent (map snd (store empty_world))
   \<and> map (\<lambda>(i, d). (model d, length (embedding d)))
        (store (serve demo [\<lparr>title = ''Hello'', content = ''World''\<rparr>,
                            \<lparr>title = ''Hello'', content = ''World''\<rparr>] empty_world))
       = [(MODEL_NAME, 384), (MODEL_NAME, 384)]
   \<and> dim_consistent (map snd
        (store (serve demo [\<lparr>title = ''Hello'', content = ''World''\<rparr>,
                            \<lparr>title = ''Hello'', content = ''World''\<rparr>] empty_world)))"
proof -
  have h0: "dim_consistent (map snd (store empty_world))"
    by (simp add: dim_consistent_def empty_world_def)
  have run: "map (\<lambda>(i, d). (model d, length (embedding d)))
        (store (serve demo [\<lparr>title = ''Hello'', content = ''World''\<rparr>,
                            \<lparr>title = ''Hello'', content = ''World''\<rparr>] empty_world))
       = [(MODEL_NAME, 384), (MODEL_NAME, 384)]"
    by (subst demo_twice) simp
  from C3_embedding_dimension [OF demo_dim demo_persists_only,
      of "[\<lparr>title = ''Hello'', content = ''World''\<rparr>, \<lparr>title = ''Hello'', content = ''World''\<rparr>]"
         empty_world] h0
  have "dim_consistent (map snd
        (store (serve demo [\<lparr>title = ''Hello'', content = ''World''\<rparr>,
                            \<lparr>title = ''Hello'', content = ''World''\<rparr>] empty_world)))"
    by blast
  with demo_dim demo_persists_only h0 run show ?thesis by blast
qed

subsection \<open>Failures\<close>

lemma add_text_encode_raises:
  "encode cl (text_blob payload) = Inl e \<Longrightarrow>
     add_text cl payload w =
       (Inl (HTTPException 500 (str_exn e)), w\<lparr>calls := calls w @ [Encode (text_blob payload)]\<rparr>)"
  by (simp add: add_text_def add_text_try_def Let_def)

lemma add_text_to_list_raises:
  "encode cl (text_blob payload) = Inr v \<Longrightarrow> to_list v = Inl e \<Longrightarrow>
     add_text cl payload w =
       (Inl (HTTPException 500 (str_exn e)), w\<lparr>calls := calls w @ [Encode (text_blob payload)]\<rparr>)"
  by (simp add: add_text_def add_text_try_def Let_def)

lemma add_text_error_shape:
  "fst (add_text cl payload w) = Inl err \<Longrightarrow> \<exists>e. err = HTTPException 500 (str_exn e)"
  by (cases "add_text_try cl payload w") (auto simp add: add_text_def split: sum.splits)

text \<open>
  C4. Whichever step raises (the encoder, the conversion of its result to a list, or
  the insert of the store), \<open>add_text\<close> answers with an \<open>HTTPException\<close> of status 500
  whose detail is the text of the exception raised; and every failure \<open>add_text\<close>
  answers with has this one shape, so that the class of the cause is not exposed. (The
  dictionary literal that builds the document has no way to raise.)
\<close>

theorem C4_any_failure_is_500:
  "(encode cl (text_blob payload) = Inl e \<longrightarrow>
      fst (add_text cl payload w) = Inl (HTTPException 500 (str_exn e)))
   \<and> (encode cl (text_blob payload) = Inr v \<and> to_list v = Inl e \<longrightarrow>
      fst (add_text cl payload w) = Inl (HTTPException 500 (str_exn e)))
   \<and> (encode cl (text_blob payload) = Inr v \<and> to_list v = Inr xs
        \<and> fst (insert_one cl (store w) (doc payload xs)) = Inl e \<longrightarrow>
      fst (add_text cl payload w) = Inl (HTTPException 500 (str_exn e)))
   \<and> (\<forall>err. fst (add_text cl payload w) = Inl err \<longrightarrow>
        (\<exists>cause. err = HTTPException 500 (str_exn cause)))"
proof (intro conjI impI allI)
  assume "encode cl (text_blob payload) = Inl e"
  then show "fst (add_text cl payload w) = Inl (HTTPException 500 (str_exn e))"
    by (simp add: add_text_encode_raises)
next
  assume "encode cl (text_blob payload) = Inr v \<and> to_list v = Inl e"
  then show "fst (add_text cl payload w) = Inl (HTTPException 500 (str_exn e))"
    by (simp add: add_text_to_list_raises)
next
  assume a: "encode cl (text_blob payload) = Inr v \<and> to_list v = Inr xs
        \<and> fst (insert_one cl (store w) (doc payload xs)) = Inl e"
  obtain st where "insert_one cl (store w) (doc payload xs) = (Inl e, st)"
    using a by (cases "insert_one cl (store w) (doc payload xs)") simp
  with a show "fst (add_text cl payload w) = Inl (HTTPException 500 (str_exn e))"
    by (simp add: add_text_run)
next
  fix err assume "fst (add_text cl payload w) = Inl err"
  then show "\<exists>cause. err = HTTPException 500 (str_exn cause)"
    by (rule add_text_error_shape)
qed

theorem C4_witness:
  "encode demo_no_model (text_blob \<lparr>title = ''Hello'', content = ''World''\<rparr>)
      = Inl (Exn ''RuntimeError'' ''out of memory'')
   \<and> fst (add_text demo_no_model \<lparr>title = ''Hello'', content = ''World''\<rparr> empty_world)
      = Inl (HTTPException 500 ''out of memory'')
   \<and> encode demo_no_vector (text_blob \<lparr>title = ''Hello'', content = ''World''\<rparr>)
      = Inr (PyObject ''NoneType'')
   \<and> to_list (PyObject ''NoneType'' :: real encoded)
      = Inl (Exn ''TypeError'' (CHR 0x27 # ''NoneType'' @ CHR 0x27 # '' object is not iterable''))
   \<and> fst (add_text demo_no_vector \<lparr>title = ''Hello'', content = ''World''\<rparr> empty_world)
      = Inl (HTTPException 500 (CHR 0x27 # ''NoneType'' @ CHR 0x27 # '' object is not iterable''))
   \<and> encode demo_down (text_blob \<lparr>title = ''Hello'', content = ''World''\<rparr>)
      = Inr (NdArray (replicate 384 12))
   \<and> fst (insert_one demo_down (store empty_world)
            (doc \<lparr>title = ''Hello'', content = ''World''\<rparr> (replicate 384 12)))
      = Inl (Exn ''ServerSelectionTimeoutError'' ''connection refused'')
   \<and> fst (add_text demo_down \<lparr>title = ''Hello'', content = ''World''\<rparr> empty_world)
      = Inl (HTTPException 500 ''connection refused'')"
proof -
  have a1: "encode demo_no_model (text_blob \<lparr>title = ''Hello'', content = ''World''\<rparr>)
      = Inl (Exn ''RuntimeError'' ''out of memory'')"
    by (simp add: demo_no_model_def demo_def)
  have b1: "encode demo_no_vector (text_blob \<lparr>title = ''Hello'', content = ''World''\<rparr>)
      = Inr (PyObject ''NoneType'')"
    by (simp add: demo_no_vector_def demo_def)
  have b2: "to_list (PyObject ''NoneType'' :: real encoded)
      = Inl (Exn ''TypeError'' (CHR 0x27 # ''NoneType'' @ CHR 0x27 # '' object is not iterable''))"
    by simp
  have c1: "encode demo_down (text_blob \<lparr>title = ''Hello'', content = ''World''\<rparr>)
      = Inr (NdArray (replicate 384 12))"
    by (simp add: demo_down_def demo_def demo_encode_def text_blob_def)
  have c2: "to_list (NdArray (replicate 384 12) :: real encoded) = Inr (replicate 384 12)"
    by simp
  have c3: "fst (insert_one demo_down (store empty_world)
            (doc \<lparr>title = ''Hello'', content = ''World''\<rparr> (replicate 384 12)))
      = Inl (Exn ''ServerSelectionTimeoutError'' ''connection refused'')"
    by (simp add: demo_down_def demo_def)
  from a1 C4_any_failure_is_500 [where cl = demo_no_model
      and payload = "\<lparr>title = ''Hello'', content = ''World''\<rparr>"
      and e = "Exn ''RuntimeError'' ''out of memory''" and w = empty_world]
  have a: "fst (add_text demo_no_model \<lparr>title = ''Hello'', content = ''World''\<rparr> empty_world)
      = Inl (HTTPException 500 ''out of memory'')"
    by simp
  from b1 b2 C4_any_failure_is_500 [where cl = demo_no_vector
      and payload = "\<lparr>title = ''Hello'', content = ''World''\<rparr>"
      and v = "PyObject ''NoneType''"
      and e = "Exn ''TypeError'' (CHR 0x27 # ''NoneType'' @ CHR 0x27 # '' object is not iterable'')"
      and w = empty_world]
  have b: "fst (add_text demo_no_vector \<lparr>title = ''Hello'', content = ''World''\<rparr> empty_world)
      = Inl (HTTPException 500 (CHR 0x27 # ''NoneType'' @ CHR 0x27 # '' object is not iterable''))"
    by simp
  from c1 c2 c3 C4_any_failure_is_500 [where cl = demo_down
      and payload = "\<lparr>title = ''Hello'', content = ''World''\<rparr>"
      and v = "NdArray (replicate 384 12)" and xs = "replicate 384 12"
      and e = "Exn ''ServerSelectionTimeoutError'' ''connection refused''"
      and w = empty_world]
  have c: "fst (add_text demo_down \<lparr>title = ''Hello'', content = ''World''\<rparr> empty_world)
      = Inl (HTTPException 500 ''connection refused'')"
    by simp
  from a1 a b1 b2 b c1 c3 c show ?thesis by blast
qed

subsection \<open>A failing insert\<close>

text \<open>
  With a store that writes the document and then raises, \<open>add_text\<close> answers 500 and
  the collection, empty before, holds the complete document afterwards.
\<close>

theorem C5_counterexample:
  "fst (insert_one demo_late (store empty_world)
          (doc \<lparr>title = ''Hello'', content = ''World''\<rparr> (replicate 384 12)))
     = Inl (Exn ''WriteConcernError'' ''waiting for replication timed out'')
   \<and> fst (add_text demo_late \<lparr>title = ''Hello'', content = ''World''\<rparr> empty_world)
     = Inl (HTTPException 500 ''waiting for replication timed out'')
   \<and> store empty_world = []
   \<and> store (snd (add_text demo_late \<lparr>title = ''Hello'', content = ''World''\<rparr> empty_world))
     = [(0, \<lparr>doc_title = ''Hello'', doc_content = ''World'',
              embedding = replicate 384 12, model = MODEL_NAME\<rparr>)]"
  by (simp add: add_text_def add_text_try_def demo_late_def demo_def demo_encode_def
      empty_world_def text_blob_def doc_def Let_def)

text \<open>
  C5, amended. When the insert of the store raises, \<open>add_text\<close> answers with status 500
  and the text of the exception, after that one attempt: the store is left in the state
  the failed insert left it in, with no further write, retry or rollback. The collection
  is therefore unchanged whenever a failing insert of the store writes nothing.
\<close>

theorem C5_failed_insert:
  assumes "encode cl (text_blob payload) = Inr v" and "to_list v = Inr xs"
    and "insert_one cl (store w) (doc payload xs) = (Inl e, st)"
  shows "add_text cl payload w =
       (Inl (HTTPException 500 (str_exn e)),
        \<lparr>calls = calls w @ [Encode (text_blob payload), InsertOne (doc payload xs)],
         store = st\<rparr>)
     \<and> (clean_failure cl docs_of \<longrightarrow>
          docs_of (store (snd (add_text cl payload w))) = docs_of (store w))"
proof -
  have run: "add_text cl payload w =
       (Inl (HTTPException 500 (str_exn e)),
        \<lparr>calls = calls w @ [Encode (text_blob payload), InsertOne (doc payload xs)],
         store = st\<rparr>)"
    using add_text_run [OF assms] by simp
  moreover have "docs_of st = docs_of (store w)" if "clean_failure cl docs_of"
    using that assms(3) unfolding clean_failure_def by blast
  ultimately show ?thesis by simp
qed

lemma demo_down_clean: "clean_failure demo_down (\<lambda>s. s)"
  by (simp add: clean_failure_def demo_down_def demo_def)

theorem C5_witness:
  "encode demo_down (text_blob \<lparr>title = ''Hello'', content = ''World''\<rparr>)
      = Inr (NdArray (replicate 384 12))
   \<and> to_list (NdArray (replicate 384 12) :: real encoded) = Inr (replicate 384 12)
   \<and> insert_one demo_down (store empty_world)
        (doc \<lparr>title = ''Hello'', content = ''World''\<rparr> (replicate 384 12))
      = (Inl (Exn ''ServerSelectionTimeoutError'' ''connection refused''), [])
   \<and> clean_failure demo_down (\<lambda>s. s)
   \<and> fst (add_text demo_down \<lparr>title = ''Hello'', content = ''World''\<rparr> empty_world)
      = Inl (HTTPException 500 ''connection refused'')
   \<and> store (snd (add_text demo_down \<lparr>title = ''Hello'', content = ''World''\<rparr> empty_world))
      = store empty_world"
proof -
  have h1: "encode demo_down (text_blob \<lparr>title = ''Hello'', content = ''World''\<rparr>)
      = Inr (NdArray (replicate 384 12))"
    by (simp add: demo_down_def demo_def demo_encode_def text_blob_def)
  have h2: "to_list (NdArray (replicate 384 12) :: real encoded) = Inr (replicate 384 12)"
    by simp
  have h3: "insert_one demo_down (store empty_world)
        (doc \<lparr>title = ''Hello'', content = ''World''\<rparr> (replicate 384 12))
      = (Inl (Exn ''ServerSelectionTimeoutError'' ''connection refused''), [])"
    by (simp add: demo_down_def demo_def empty_world_def)
  from C5_failed_insert [OF h1 h2 h3, of "\<lambda>s. s"] demo_down_clean
  have "fst (add_text demo_down \<lparr>title = ''Hello'', content = ''World''\<rparr> empty_world)
      = Inl (HTTPException 500 ''connection refused'')
   \<and> store (snd (add_text demo_down \<lparr>title = ''Hello'', content = ''World''\<rparr> empty_world))
      = store empty_world"
    by (simp add: empty_world_def)
  with h1 h2 h3 demo_down_clean show ?thesis by blast
qed

subsection \<open>Empty title or content\<close>

text \<open>
  A body with an empty title and an empty content is ingested: the call succeeds and a
  document with both fields empty is persisted.
\<close>

theorem C6_counterexample:
  "post_add_text demo (JObject [(''title'', JString ''''), (''content'', JString '''')]) empty_world =
     (Inr \<lparr>inserted_id = ''0'', resp_title = ''''\<rparr>,
      \<lparr>calls = [Encode ''\<newline>\<newline>'',
          InsertOne \<lparr>doc_title = '''', doc_content = '''',
                     embedding = replicate 384 2, model = MODEL_NAME\<rparr>],
        store = [(0, \<lparr>doc_title = '''', doc_content = '''',
                      embedding = replicate 384 2, model = MODEL_NAME\<rparr>)]\<rparr>)"
  by (simp add: post_add_text_def add_text_def add_text_try_def demo_def demo_encode_def
      mem_insert_one_def empty_world_def text_blob_def doc_def Let_def str_nat.simps)

text \<open>
  C6, amended. Title and content have to be text, and may be empty: a body whose title
  or content is the empty string passes validation, and when the encoder and the store
  succeed it is ingested like any other, the document persisted having the empty field
  as it was given.
\<close>

theorem C6_empty_text_is_ingested:
  assumes "t = [] \<or> c = []"
    and "appends_on_success cl docs_of"
    and "encode cl (t @ ''\<newline>\<newline>'' @ c) = Inr v" and "to_list v = Inr xs"
    and "insert_one cl (store w)
           \<lparr>doc_title = t, doc_content = c, embedding = xs, model = MODEL_NAME\<rparr> = (Inr i, st)"
  shows "fst (post_add_text cl (JObject [(''title'', JString t), (''content'', JString c)]) w)
       = Inr \<lparr>inserted_id = str_id cl i, resp_title = t\<rparr>
     \<and> docs_of (store (snd (post_add_text cl
           (JObject [(''title'', JString t), (''content'', JString c)]) w)))
       = docs_of (store w) @
           [(i, \<lparr>doc_title = t, doc_content = c, embedding = xs, model = MODEL_NAME\<rparr>)]"
proof -
  let ?p = "\<lparr>title = t, content = c\<rparr>"
  have e: "encode cl (text_blob ?p) = Inr v"
    using assms(3) by (simp add: text_blob_def)
  have i: "insert_one cl (store w) (doc ?p xs) = (Inr i, st)"
    using assms(5) by (simp add: doc_def)
  have "post_add_text cl (JObject [(''title'', JString t), (''content'', JString c)]) w
      = add_text cl ?p w"
    by (simp add: post_add_text_def)
  moreover have "docs_of st = docs_of (store w) @ [(i, doc ?p xs)]"
    using assms(2) i unfolding appends_on_success_def by blast
  ultimately show ?thesis
    using add_text_run [OF e assms(4) i] by (simp add: doc_def)
qed

theorem C6_witness:
  "(([]::string) = [] \<or> ''World'' = [])
   \<and> appends_on_success demo (\<lambda>s. s)
   \<and> encode demo ('''' @ ''\<newline>\<newline>'' @ ''World'') = Inr (NdArray (replicate 384 7))
   \<and> to_list (NdArray (replicate 384 7) :: real encoded) = Inr (replicate 384 7)
   \<and> insert_one demo (store empty_world)
        \<lparr>doc_title = '''', doc_content = ''World'', embedding = replicate 384 7, model = MODEL_NAME\<rparr>
      = (Inr 0, [(0, \<lparr>doc_title = '''', doc_content = ''World'',
                       embedding = replicate 384 7, model = MODEL_NAME\<rparr>)])
   \<and> fst (post_add_text demo (JObject [(''title'', JString ''''), (''content'', JString ''World'')])
          empty_world)
      = Inr \<lparr>inserted_id = ''0'', resp_title = ''''\<rparr>
   \<and> store (snd (post_add_text demo
          (JObject [(''title'', JString ''''), (''content'', JString ''World'')]) empty_world))
      = [(0, \<lparr>doc_title = '''', doc_content = ''World'',
               embedding = replicate 384 7, model = MODEL_NAME\<rparr>)]"
proof -
  have h1: "([]::string) = [] \<or> ''World'' = []" by simp
  have h3: "encode demo ('''' @ ''\<newline>\<newline>'' @ ''World'') = Inr (NdArray (replicate 384 7))"
    by (simp add: demo_def demo_encode_def)
  have h4: "to_list (NdArray (replicate 384 7) :: real encoded) = Inr (replicate 384 7)"
    by simp
  have h5: "insert_one demo (store empty_world)
        \<lparr>doc_title = '''', doc_content = ''World'', embedding = replicate 384 7, model = MODEL_NAME\<rparr>
      = (Inr 0, [(0, \<lparr>doc_title = '''', doc_content = ''World'',
                       embedding = replicate 384 7, model = MODEL_NAME\<rparr>)])"
    by (simp add: demo_def mem_insert_one_def empty_world_def)
  from C6_empty_text_is_ingested [OF h1 demo_appends h3 h4 h5]
  have "fst (post_add_text demo (JObject [(''title'', JString ''''), (''content'', JString ''World'')])
          empty_world)
      = Inr \<lparr>inserted_id = ''0'', resp_title = ''''\<rparr>
   \<and> store (snd (post_add_text demo
          (JObject [(''title'', JString ''''), (''content'', JString ''World'')]) empty_world))
      = [(0, \<lparr>doc_title = '''', doc_content = ''World'',
               embedding = replicate 384 7, model = MODEL_NAME\<rparr>)]"
    by (simp add: demo_def str_nat.simps empty_world_def)
  with h1 demo_appends h3 h4 h5 show ?thesis by blast
qed

subsection \<open>The same request twice\<close>

lemma twice_distinct:
  assumes "appends_on_success cl docs_of" and "fresh_ids cl docs_of"
    and "add_text cl payload w = (Inr r1, w1)" and "add_text cl payload w1 = (Inr r2, w2)"
  shows "\<exists>i1 i2 d. docs_of (store w2) = docs_of (store w) @ [(i1, d), (i2, d)]
      \<and> i1 \<noteq> i2
      \<and> inserted_id r1 = str_id cl i1 \<and> inserted_id r2 = str_id cl i2
      \<and> doc_title d = title payload \<and> doc_content d = content payload"
proof -
  from add_text_success [OF assms(3)] obtain v xs i1 st1 where
    enc: "encode cl (text_blob payload) = Inr v" and tl: "to_list v = Inr xs"
    and ins1: "insert_one cl (store w) (doc payload xs) = (Inr i1, st1)"
    and r1: "r1 = \<lparr>inserted_id = str_id cl i1, resp_title = title payload\<rparr>"
    and w1: "store w1 = st1"
    by fastforce
  from add_text_success [OF assms(4)] obtain v' xs' i2 st2 where
    enc': "encode cl (text_blob payload) = Inr v'" and tl': "to_list v' = Inr xs'"
    and ins2: "insert_one cl (store w1) (doc payload xs') = (Inr i2, st2)"
    and r2: "r2 = \<lparr>inserted_id = str_id cl i2, resp_title = title payload\<rparr>"
    and w2: "store w2 = st2"
    by fastforce
  from enc enc' tl tl' have same: "xs' = xs" by simp
  from assms(1) ins1 have d1: "docs_of st1 = docs_of (store w) @ [(i1, doc payload xs)]"
    unfolding appends_on_success_def by blast
  from assms(1) ins2 w1 same have d2: "docs_of st2 = docs_of st1 @ [(i2, doc payload xs)]"
    unfolding appends_on_success_def by blast
  from assms(2) ins2 w1 have "i2 \<notin> fst ` set (docs_of st1)"
    unfolding fresh_ids_def by blast
  with d1 have ne: "i1 \<noteq> i2" by auto
  show ?thesis
  proof (intro exI conjI)
    show "docs_of (store w2) = docs_of (store w) @ [(i1, doc payload xs), (i2, doc payload xs)]"
      using d1 d2 w2 by simp
    show "i1 \<noteq> i2" by (rule ne)
    show "inserted_id r1 = str_id cl i1" using r1 by simp
    show "inserted_id r2 = str_id cl i2" using r2 by simp
    show "doc_title (doc payload xs) = title payload" by (simp add: doc_def)
    show "doc_content (doc payload xs) = content payload" by (simp add: doc_def)
  qed
qed

lemma demo_hello_again:
  "add_text demo \<lparr>title = ''Hello'', content = ''World''\<rparr>
     \<lparr>calls = [Encode ''Hello\<newline>\<newline>World'',
        InsertOne \<lparr>doc_title = ''Hello'', doc_content = ''World'', embedding = replicate 384 12, model = MODEL_NAME\<rparr>],
      store = [(0, \<lparr>doc_title = ''Hello'', doc_content = ''World'', embedding = replicate 384 12, model = MODEL_NAME\<rparr>)]\<rparr>
   = (Inr \<lparr>inserted_id = ''1'', resp_title = ''Hello''\<rparr>,
      \<lparr>calls = [Encode ''Hello\<newline>\<newline>World'',
        InsertOne \<lparr>doc_title = ''Hello'', doc_content = ''World'', embedding = replicate 384 12, model = MODEL_NAME\<rparr>,
        Encode ''Hello\<newline>\<newline>World'',
        InsertOne \<lparr>doc_title = ''Hello'', doc_content = ''World'', embedding = replicate 384 12, model = MODEL_NAME\<rparr>],
      store = [(0, \<lparr>doc_title = ''Hello'', doc_content = ''World'', embedding = replicate 384 12, model = MODEL_NAME\<rparr>),
               (1, \<lparr>doc_title = ''Hello'', doc_content = ''World'', embedding = replicate 384 12, model = MODEL_NAME\<rparr>)]\<rparr>)"
  by (simp add: add_text_def add_text_try_def demo_def demo_encode_def mem_insert_one_def
      text_blob_def doc_def Let_def str_nat.simps)

text \<open>
  C7. Let a successful insert append the document it is given under an identifier that
  no document of the collection has. Then two successful calls of \<open>add_text\<close> with the
  same payload, one after the other, add two documents with the title and content of
  the payload under two distinct identifiers, each returned as text by its call: nothing
  is deduplicated. And the two calls do succeed whenever the encoder returns a vector
  for the framed text and the store accepts the document twice: the second call meets
  no check against the document the first one stored.
\<close>

theorem C7_no_deduplication:
  assumes "appends_on_success cl docs_of" and "fresh_ids cl docs_of"
  shows "(add_text cl payload w = (Inr r1, w1) \<and> add_text cl payload w1 = (Inr r2, w2) \<longrightarrow>
      (\<exists>i1 i2 d. docs_of (store w2) = docs_of (store w) @ [(i1, d), (i2, d)]
        \<and> i1 \<noteq> i2
        \<and> inserted_id r1 = str_id cl i1 \<and> inserted_id r2 = str_id cl i2
        \<and> doc_title d = title payload \<and> doc_content d = content payload))
    \<and> (encode cl (title payload @ ''\<newline>\<newline>'' @ content payload) = Inr v
        \<and> to_list v = Inr xs
        \<and> insert_one cl (store w)
             \<lparr>doc_title = title payload, doc_content = content payload,
              embedding = xs, model = MODEL_NAME\<rparr> = (Inr j1, s1)
        \<and> insert_one cl s1
             \<lparr>doc_title = title payload, doc_content = content payload,
              embedding = xs, model = MODEL_NAME\<rparr> = (Inr j2, s2) \<longrightarrow>
      fst (add_text cl payload w)
         = Inr \<lparr>inserted_id = str_id cl j1, resp_title = title payload\<rparr>
      \<and> fst (add_text cl payload (snd (add_text cl payload w)))
         = Inr \<lparr>inserted_id = str_id cl j2, resp_title = title payload\<rparr>
      \<and> docs_of (store (snd (add_text cl payload (snd (add_text cl payload w)))))
         = docs_of (store w) @
             [(j1, \<lparr>doc_title = title payload, doc_content = content payload,
                    embedding = xs, model = MODEL_NAME\<rparr>),
              (j2, \<lparr>doc_title = title payload, doc_content = content payload,
                    embedding = xs, model = MODEL_NAME\<rparr>)]
      \<and> j1 \<noteq> j2)"
proof (intro conjI impI)
  assume "add_text cl payload w = (Inr r1, w1) \<and> add_text cl payload w1 = (Inr r2, w2)"
  then show "\<exists>i1 i2 d. docs_of (store w2) = docs_of (store w) @ [(i1, d), (i2, d)]
        \<and> i1 \<noteq> i2
        \<and> inserted_id r1 = str_id cl i1 \<and> inserted_id r2 = str_id cl i2
        \<and> doc_title d = title payload \<and> doc_content d = content payload"
    using twice_distinct [OF assms] by blast
next
  let ?d = "\<lparr>doc_title = title payload, doc_content = content payload,
              embedding = xs, model = MODEL_NAME\<rparr>"
  assume a: "encode cl (title payload @ ''\<newline>\<newline>'' @ content payload) = Inr v
        \<and> to_list v = Inr xs
        \<and> insert_one cl (store w) ?d = (Inr j1, s1)
        \<and> insert_one cl s1 ?d = (Inr j2, s2)"
  have d: "doc payload xs = ?d"
    by (simp add: doc_def)
  have e: "encode cl (text_blob payload) = Inr v" and t: "to_list v = Inr xs"
    using a by (simp_all add: text_blob_def)
  have i1: "insert_one cl (store w) (doc payload xs) = (Inr j1, s1)"
    using a by (simp add: d)
  let ?w1 = "\<lparr>calls = calls w @ [Encode (text_blob payload), InsertOne (doc payload xs)],
       store = s1\<rparr>"
  have run1: "add_text cl payload w =
      (Inr \<lparr>inserted_id = str_id cl j1, resp_title = title payload\<rparr>, ?w1)"
    using add_text_run [OF e t i1] by simp
  have i2: "insert_one cl (store ?w1) (doc payload xs) = (Inr j2, s2)"
    using a by (simp add: d)
  let ?w2 = "\<lparr>calls = calls ?w1 @ [Encode (text_blob payload), InsertOne (doc payload xs)],
       store = s2\<rparr>"
  have run2: "add_text cl payload ?w1 =
      (Inr \<lparr>inserted_id = str_id cl j2, resp_title = title payload\<rparr>, ?w2)"
    using add_text_run [OF e t i2] by simp
  have d1: "docs_of s1 = docs_of (store w) @ [(j1, ?d)]"
    using assms(1) a unfolding appends_on_success_def by blast
  have d2: "docs_of s2 = docs_of s1 @ [(j2, ?d)]"
    using assms(1) a unfolding appends_on_success_def by blast
  have "j2 \<notin> fst ` set (docs_of s1)"
    using assms(2) a unfolding fresh_ids_def by blast
  with d1 have ne: "j1 \<noteq> j2" by auto
  show "fst (add_text cl payload w)
         = Inr \<lparr>inserted_id = str_id cl j1, resp_title = title payload\<rparr>"
    by (simp add: run1)
  show "fst (add_text cl payload (snd (add_text cl payload w)))
         = Inr \<lparr>inserted_id = str_id cl j2, resp_title = title payload\<rparr>"
    by (simp add: run1 run2)
  show "docs_of (store (snd (add_text cl payload (snd (add_text cl payload w)))))
         = docs_of (store w) @ [(j1, ?d), (j2, ?d)]"
    by (simp add: run1 run2 d1 d2)
  show "j1 \<noteq> j2" by (rule ne)
qed

theorem C7_witness:
  "appends_on_success demo (\<lambda>s. s) \<and> fresh_ids demo (\<lambda>s. s)
   \<and> encode demo ''Hello\<newline>\<newline>World'' = Inr (NdArray (replicate 384 12))
   \<and> to_list (NdArray (replicate 384 12) :: real encoded) = Inr (replicate 384 12)
   \<and> insert_one demo (store empty_world)
        \<lparr>doc_title = ''Hello'', doc_content = ''World'',
         embedding = replicate 384 12, model = MODEL_NAME\<rparr>
       = (Inr 0, [(0, \<lparr>doc_title = ''Hello'', doc_content = ''World'',
                        embedding = replicate 384 12, model = MODEL_NAME\<rparr>)])
   \<and> insert_one demo [(0, \<lparr>doc_title = ''Hello'', doc_content = ''World'',
                             embedding = replicate 384 12, model = MODEL_NAME\<rparr>)]
        \<lparr>doc_title = ''Hello'', doc_content = ''World'',
         embedding = replicate 384 12, model = MODEL_NAME\<rparr>
       = (Inr 1, [(0, \<lparr>doc_title = ''Hello'', doc_content = ''World'',
                        embedding = replicate 384 12, model = MODEL_NAME\<rparr>),
                  (1, \<lparr>doc_title = ''Hello'', doc_content = ''World'',
                        embedding = replicate 384 12, model = MODEL_NAME\<rparr>)])
   \<and> fst (add_text demo \<lparr>title = ''Hello'', content = ''World''\<rparr> empty_world)
       = Inr \<lparr>inserted_id = ''0'', resp_title = ''Hello''\<rparr>
   \<and> fst (add_text demo \<lparr>title = ''Hello'', content = ''World''\<rparr>
            (snd (add_text demo \<lparr>title = ''Hello'', content = ''World''\<rparr> empty_world)))
       = Inr \<lparr>inserted_id = ''1'', resp_title = ''Hello''\<rparr>
   \<and> store (snd (add_text demo \<lparr>title = ''Hello'', content = ''World''\<rparr>
            (snd (add_text demo \<lparr>title = ''Hello'', content = ''World''\<rparr> empty_world))))
       = [(0, \<lparr>doc_title = ''Hello'', doc_content = ''World'',
                embedding = replicate 384 12, model = MODEL_NAME\<rparr>),
          (1, \<lparr>doc_title = ''Hello'', doc_content = ''World'',
                embedding = replicate 384 12, model = MODEL_NAME\<rparr>)]
   \<and> (0::nat) \<noteq> 1
   \<and> (\<exists>i1 i2 d.
        [(0, \<lparr>doc_title = ''Hello'', doc_content = ''World'',
              embedding = replicate 384 (12::real), model = MODEL_NAME\<rparr>),
         (1, \<lparr>doc_title = ''Hello'', doc_content = ''World'',
              embedding = replicate 384 12, model = MODEL_NAME\<rparr>)] = [(i1, d), (i2, d)]
        \<and> i1 \<noteq> i2 \<and> ''0'' = str_id demo i1 \<and> ''1'' = str_id demo i2
        \<and> doc_title d = ''Hello'' \<and> doc_content d = ''World'')"
proof -
  let ?p = "\<lparr>title = ''Hello'', content = ''World''\<rparr>"
  let ?d = "\<lparr>doc_title = ''Hello'', doc_content = ''World'',
         embedding = replicate 384 12 :: real list, model = MODEL_NAME\<rparr>"
  have h1: "encode demo ''Hello\<newline>\<newline>World'' = Inr (NdArray (replicate 384 12))"
    by (simp add: demo_def demo_encode_def)
  have h2: "to_list (NdArray (replicate 384 12) :: real encoded) = Inr (replicate 384 12)"
    by simp
  have h3: "insert_one demo (store empty_world) ?d = (Inr 0, [(0, ?d)])"
    by (simp add: demo_def mem_insert_one_def empty_world_def)
  have h4: "insert_one demo [(0, ?d)] ?d = (Inr 1, [(0, ?d), (1, ?d)])"
    by (simp add: demo_def mem_insert_one_def)
  note both = C7_no_deduplication [OF demo_appends demo_fresh]
  from both [THEN conjunct1, THEN mp, OF conjI [OF demo_hello demo_hello_again]]
  have old: "\<exists>i1 i2 d. [(0, ?d), (1, ?d)] = [(i1, d), (i2, d)]
        \<and> i1 \<noteq> i2 \<and> ''0'' = str_id demo i1 \<and> ''1'' = str_id demo i2
        \<and> doc_title d = ''Hello'' \<and> doc_content d = ''World''"
    by (simp add: empty_world_def)
  have "fst (add_text demo ?p empty_world)
         = Inr \<lparr>inserted_id = str_id demo 0, resp_title = title ?p\<rparr>
      \<and> fst (add_text demo ?p (snd (add_text demo ?p empty_world)))
         = Inr \<lparr>inserted_id = str_id demo 1, resp_title = title ?p\<rparr>
      \<and> store (snd (add_text demo ?p (snd (add_text demo ?p empty_world))))
         = store empty_world @
             [(0, \<lparr>doc_title = title ?p, doc_content = content ?p,
                    embedding = replicate 384 12, model = MODEL_NAME\<rparr>),
              (1, \<lparr>doc_title = title ?p, doc_content = content ?p,
                    embedding = replicate 384 12, model = MODEL_NAME\<rparr>)]
      \<and> (0::nat) \<noteq> 1"
    by (rule both [where payload = ?p and w = empty_world
          and v = "NdArray (replicate 384 12)" and xs = "replicate 384 12"
          and ?s1.0 = "[(0, ?d)]" and ?s2.0 = "[(0, ?d), (1, ?d)]" and ?j1.0 = 0 and ?j2.0 = 1,
          THEN conjunct2, THEN mp])
      (simp add: h1 h2 h3 h4)
  then have new: "fst (add_text demo ?p empty_world)
       = Inr \<lparr>inserted_id = ''0'', resp_title = ''Hello''\<rparr>"
    "fst (add_text demo ?p (snd (add_text demo ?p empty_world)))
       = Inr \<lparr>inserted_id = ''1'', resp_title = ''Hello''\<rparr>"
    "store (snd (add_text demo ?p (snd (add_text demo ?p empty_world))))
       = [(0, ?d), (1, ?d)]"
    "(0::nat) \<noteq> 1"
    by (simp_all add: demo_def str_nat.simps empty_world_def)
  from demo_appends demo_fresh h1 h2 h3 h4 new old show ?thesis
    by (intro conjI)
qed

subsection \<open>Bodies that do not fit the schema\<close>

lemma str_field_is_text: "str_field kvs k = None \<longleftrightarrow> \<not> is_text (get_key (JObject kvs) k)"
  by (simp split: option.split json.split)

lemma validate_rejects:
  assumes "\<not> is_text (get_key body ''title'') \<or> \<not> is_text (get_key body ''content'')"
  shows "\<exists>locs. validate body = Inl (RequestValidationError locs)"
proof (cases body)
  case (JObject kvs)
  have "str_field kvs ''title'' = None \<or> str_field kvs ''content'' = None"
    using assms unfolding JObject str_field_is_text .
  then have "validate (JObject kvs) = Inl (RequestValidationError
      (filter (\<lambda>k. str_field kvs k = None) [''title'', ''content'']))"
    by (cases "str_field kvs ''title''"; cases "str_field kvs ''content''")
      (simp_all del: str_field.simps)
  then show ?thesis
    unfolding JObject by (rule exI)
qed simp_all

text \<open>
  C8. A body that lacks the title or the content, or gives one of them a value that is
  not text, is answered with a validation error of status 422, and the world is left as
  it was: the encoder is not called and nothing is written to the store.
\<close>

theorem C8_invalid_body_rejected:
  assumes "\<not> is_text (get_key body ''title'') \<or> \<not> is_text (get_key body ''content'')"
  shows "\<exists>err. post_add_text cl body w = (Inl err, w) \<and> http_status err = 422"
proof -
  from validate_rejects [OF assms] obtain locs where
    "validate body = Inl (RequestValidationError locs)" by blast
  then have "post_add_text cl body w = (Inl (RequestValidationError locs), w)"
    by (simp add: post_add_text_def)
  then show ?thesis by simp
qed


theorem C8_witness:
  "\<not> is_text (get_key (JObject [(''title'', JString ''Hello'')]) ''content'')
   \<and> post_add_text demo (JObject [(''title'', JString ''Hello'')]) empty_world
       = (Inl (RequestValidationError [''content'']), empty_world)
   \<and> \<not> is_text (get_key (JObject [(''title'', JNumber 7), (''content'', JString ''World'')]) ''title'')
   \<and> post_add_text demo (JObject [(''title'', JNumber 7), (''content'', JString ''World'')]) empty_world
       = (Inl (RequestValidationError [''title'']), empty_world)
   \<and> (\<exists>err. post_add_text demo (JObject [(''title'', JString ''Hello'')]) empty_world
          = (Inl err, empty_world) \<and> http_status err = 422)
   \<and> (\<exists>err. post_add_text demo (JObject [(''title'', JNumber 7), (''content'', JString ''World'')])
          empty_world = (Inl err, empty_world) \<and> http_status err = 422)"
proof -
  have n1: "\<not> is_text (get_key (JObject [(''title'', JString ''Hello'')]) ''content'')"
    by simp
  have n2: "\<not> is_text (get_key (JObject [(''title'', JNumber 7), (''content'', JString ''World'')]) ''title'')"
    by simp
  from n1 have h1: "\<not> is_text (get_key (JObject [(''title'', JString ''Hello'')]) ''title'')
      \<or> \<not> is_text (get_key (JObject [(''title'', JString ''Hello'')]) ''content'')"
    by (rule disjI2)
  from n2 have h2: "\<not> is_text (get_key (JObject [(''title'', JNumber 7), (''content'', JString ''World'')]) ''title'')
      \<or> \<not> is_text (get_key (JObject [(''title'', JNumber 7), (''content'', JString ''World'')]) ''content'')"
    by (rule disjI1)
  have r1: "post_add_text demo (JObject [(''title'', JString ''Hello'')]) empty_world
       = (Inl (RequestValidationError [''content'']), empty_world)"
    by (simp add: post_add_text_def)
  have r2: "post_add_text demo (JObject [(''title'', JNumber 7), (''content'', JString ''World'')]) empty_world
       = (Inl (RequestValidationError [''title'']), empty_world)"
    by (simp add: post_add_text_def)
  note e1 = C8_invalid_body_rejected [OF h1, of demo empty_world]
  note e2 = C8_invalid_body_rejected [OF h2, of demo empty_world]
  from n1 r1 n2 r2 e1 e2 show ?thesis
    by (intro conjI)
qed

subsection \<open>Startup\<close>



subsection \<open>The framing is not injective\<close>

text \<open>
  C10. The payloads with title \<open>a\<close> and content \<open>b\<close>, blank line, \<open>c\<close>, and with
  title \<open>a\<close>, blank line, \<open>b\<close> and content \<open>c\<close>, are distinct and have the same framed
  text; so the encoder receives the same text for both, with any collaborators and in
  any world, and with the encoder and the store in memory the two documents persisted
  have the same embedding and different titles and contents.
\<close>

theorem C10_framing_not_injective:
  "\<lparr>title = ''a'', content = ''b\<newline>\<newline>c''\<rparr> \<noteq> \<lparr>title = ''a\<newline>\<newline>b'', content = ''c''\<rparr>
   \<and> text_blob \<lparr>title = ''a'', content = ''b\<newline>\<newline>c''\<rparr>
       = text_blob \<lparr>title = ''a\<newline>\<newline>b'', content = ''c''\<rparr>
   \<and> encoded_texts (calls (snd (add_text cl \<lparr>title = ''a'', content = ''b\<newline>\<newline>c''\<rparr> w)))
       = encoded_texts (calls (snd (add_text cl \<lparr>title = ''a\<newline>\<newline>b'', content = ''c''\<rparr> w)))
   \<and> store (snd (add_text demo \<lparr>title = ''a'', content = ''b\<newline>\<newline>c''\<rparr> empty_world))
       = [(0, \<lparr>doc_title = ''a'', doc_content = ''b\<newline>\<newline>c'',
                embedding = replicate 384 7, model = MODEL_NAME\<rparr>)]
   \<and> store (snd (add_text demo \<lparr>title = ''a\<newline>\<newline>b'', content = ''c''\<rparr> empty_world))
       = [(0, \<lparr>doc_title = ''a\<newline>\<newline>b'', doc_content = ''c'',
                embedding = replicate 384 7, model = MODEL_NAME\<rparr>)]"
proof (intro conjI)
  show "\<lparr>title = ''a'', content = ''b\<newline>\<newline>c''\<rparr> \<noteq> \<lparr>title = ''a\<newline>\<newline>b'', content = ''c''\<rparr>"
    by simp
  show same: "text_blob \<lparr>title = ''a'', content = ''b\<newline>\<newline>c''\<rparr>
       = text_blob \<lparr>title = ''a\<newline>\<newline>b'', content = ''c''\<rparr>"
    by (simp add: text_blob_def)
  show "encoded_texts (calls (snd (add_text cl \<lparr>title = ''a'', content = ''b\<newline>\<newline>c''\<rparr> w)))
       = encoded_texts (calls (snd (add_text cl \<lparr>title = ''a\<newline>\<newline>b'', content = ''c''\<rparr> w)))"
    by (simp only: add_text_calls same)
  show "store (snd (add_text demo \<lparr>title = ''a'', content = ''b\<newline>\<newline>c''\<rparr> empty_world))
       = [(0, \<lparr>doc_title = ''a'', doc_content = ''b\<newline>\<newline>c'',
                embedding = replicate 384 7, model = MODEL_NAME\<rparr>)]"
    by (simp add: add_text_def add_text_try_def demo_def demo_encode_def mem_insert_one_def
        empty_world_def text_blob_def doc_def Let_def)
  show "store (snd (add_text demo \<lparr>title = ''a\<newline>\<newline>b'', content = ''c''\<rparr> empty_world))
       = [(0, \<lparr>doc_title = ''a\<newline>\<newline>b'', doc_content = ''c'',
                embedding = replicate 384 7, model = MODEL_NAME\<rparr>)]"
    by (simp add: add_text_def add_text_try_def demo_def demo_encode_def mem_insert_one_def
        empty_world_def text_blob_def doc_def Let_def)
qed

end
